theory Spec2Isabelle
  imports Complex_Main "HOL-Library.Char_ord" "HOL-Library.List_Lexorder"
begin

section \<open>Numbers\<close>

text \<open>
  The analyzer computes with numpy float64 values: the finite binary64 numbers and
  \<open>inf\<close>, \<open>-inf\<close>, \<open>nan\<close>. A finite value is carried as the real number it
  denotes; the sign of zero is not modelled. Every arithmetic operation returns the
  exact result rounded to the nearest binary64 number, ties to even, and overflows to
  an infinity. A division by zero does not raise on numpy values; it yields \<open>nan\<close>
  (for \<open>0/0\<close>) or an infinity.
\<close>

datatype npfloat = Fin real | PInf | NInf | NaN

fun np_neg :: "npfloat \<Rightarrow> npfloat" where
  "np_neg (Fin x) = Fin (- x)"
| "np_neg PInf = NInf"
| "np_neg NInf = PInf"
| "np_neg NaN = NaN"

subsection \<open>Rounding to binary64\<close>

text \<open>
  \<open>float_exp a\<close> is the exponent of a positive real \<open>a\<close>: the largest \<open>e\<close> from
  \<open>-1022\<close> to \<open>1023\<close> with \<open>2^e \<le> a\<close>, found bit by bit, or \<open>-1022\<close> for a
  subnormal \<open>a\<close>. The binary64 numbers at that exponent are the multiples of
  \<open>q = 2^(e - 52)\<close>; \<open>round_to q a\<close> is the multiple of \<open>q\<close> nearest to \<open>a\<close>, the
  even one on a tie, and \<open>inf\<close> from \<open>2^1024\<close> on.
\<close>

definition float_exp :: "real \<Rightarrow> int" where
  "float_exp a =
     foldl (\<lambda>e b. if e + b \<le> 1023 \<and> 2 powi (e + b) \<le> a then e + b else e) (- 1022)
       [1024, 512, 256, 128, 64, 32, 16, 8, 4, 2, 1]"

definition round_half_even :: "real \<Rightarrow> int" where
  "round_half_even x =
     (if 1 / 2 < x - of_int \<lfloor>x\<rfloor> \<or> x - of_int \<lfloor>x\<rfloor> = 1 / 2 \<and> odd \<lfloor>x\<rfloor> then \<lfloor>x\<rfloor> + 1
      else \<lfloor>x\<rfloor>)"

definition round_to :: "real \<Rightarrow> real \<Rightarrow> npfloat" where
  "round_to q a =
     (if 2 ^ 1024 \<le> of_int (round_half_even (a / q)) * q then PInf
      else Fin (of_int (round_half_even (a / q)) * q))"

definition rnd64 :: "real \<Rightarrow> npfloat" where
  "rnd64 y =
     (if y = 0 then Fin 0
      else if 0 < y then round_to (2 powi (float_exp y - 52)) y
      else np_neg (round_to (2 powi (float_exp (- y) - 52)) (- y)))"

subsection \<open>Arithmetic\<close>

fun np_add :: "npfloat \<Rightarrow> npfloat \<Rightarrow> npfloat" where
  "np_add NaN _ = NaN"
| "np_add _ NaN = NaN"
| "np_add (Fin x) (Fin y) = rnd64 (x + y)"
| "np_add PInf NInf = NaN"
| "np_add NInf PInf = NaN"
| "np_add PInf _ = PInf"
| "np_add _ PInf = PInf"
| "np_add NInf _ = NInf"
| "np_add _ NInf = NInf"

definition np_sub :: "npfloat \<Rightarrow> npfloat \<Rightarrow> npfloat" where
  "np_sub a b = np_add a (np_neg b)"

text \<open>The sign of a value that is not \<open>nan\<close>: \<open>-1\<close>, \<open>0\<close> or \<open>1\<close>.\<close>

fun np_sign :: "npfloat \<Rightarrow> int" where
  "np_sign (Fin x) = (if x < 0 then - 1 else if x = 0 then 0 else 1)"
| "np_sign PInf = 1"
| "np_sign NInf = - 1"
| "np_sign NaN = 0"

definition signed_inf :: "int \<Rightarrow> npfloat" where
  "signed_inf s = (if s < 0 then NInf else PInf)"

fun np_mul :: "npfloat \<Rightarrow> npfloat \<Rightarrow> npfloat" where
  "np_mul NaN _ = NaN"
| "np_mul _ NaN = NaN"
| "np_mul (Fin x) (Fin y) = rnd64 (x * y)"
| "np_mul a b =
     (if np_sign a * np_sign b = 0 then NaN else signed_inf (np_sign a * np_sign b))"

fun np_div :: "npfloat \<Rightarrow> npfloat \<Rightarrow> npfloat" where
  "np_div NaN _ = NaN"
| "np_div _ NaN = NaN"
| "np_div (Fin x) (Fin y) =
     (if y \<noteq> 0 then rnd64 (x / y)
      else if x = 0 then NaN else signed_inf (np_sign (Fin x)))"
| "np_div (Fin x) _ = Fin 0"
| "np_div a (Fin y) = signed_inf (np_sign a * (if y < 0 then - 1 else 1))"
| "np_div _ _ = NaN"

fun np_sqrt :: "npfloat \<Rightarrow> npfloat" where
  "np_sqrt (Fin x) = (if x < 0 then NaN else rnd64 (sqrt x))"
| "np_sqrt PInf = PInf"
| "np_sqrt NInf = NaN"
| "np_sqrt NaN = NaN"

fun np_abs :: "npfloat \<Rightarrow> npfloat" where
  "np_abs (Fin x) = Fin \<bar>x\<bar>"
| "np_abs PInf = PInf"
| "np_abs NInf = PInf"
| "np_abs NaN = NaN"

text \<open>\<open>a > b\<close>; every comparison with \<open>nan\<close> is false.\<close>

fun np_gt :: "npfloat \<Rightarrow> npfloat \<Rightarrow> bool" where
  "np_gt NaN _ = False"
| "np_gt _ NaN = False"
| "np_gt (Fin x) (Fin y) = (y < x)"
| "np_gt PInf PInf = False"
| "np_gt PInf _ = True"
| "np_gt _ PInf = False"
| "np_gt NInf _ = False"
| "np_gt _ NInf = True"

section \<open>The metrics table\<close>

text \<open>
  One row of \<open>self.df\<close>. A date is the day number of its timestamp; the values
  of the numeric columns are finite binary64 numbers. The code reads three of the numeric
  columns by name in \<open>detect_anomalies\<close>; \<open>metric\<close> is that column name. A frame
  is the list of its rows, in row order; it always has the six columns, so the empty
  list is the frame with these columns and no rows.
\<close>

record metric_record =
  date :: int
  department :: string
  staff_hours :: real
  budget_spent :: real
  resource_utilization :: real
  productivity_score :: real

type_synonym dataframe = "metric_record list"

datatype metric = StaffHours | BudgetSpent | ResourceUtilization

fun column :: "metric \<Rightarrow> metric_record \<Rightarrow> real" where
  "column StaffHours r = staff_hours r"
| "column BudgetSpent r = budget_spent r"
| "column ResourceUtilization r = resource_utilization r"

datatype py_error =
  IndexError | KeyError | TypeError | AttributeError | ValueError | JSONDecodeError
  | ServiceError

subsection \<open>pandas operations used by the analyzer\<close>

text \<open>\<open>Series.unique()\<close>: the distinct values in order of first appearance.\<close>

fun unique :: "'a list \<Rightarrow> 'a list" where
  "unique [] = []"
| "unique (x # xs) = x # unique (filter (\<lambda>y. y \<noteq> x) xs)"

text \<open>
  The reductions of a series. pandas computes \<open>mean\<close> as the sum over the count, the
  variance (\<open>ddof = 1\<close>) as the sum of the squared differences \<open>(avg - values) ** 2\<close>
  over \<open>n - 1\<close>, and \<open>std\<close> as its square root, every step in float64; \<open>mean\<close> is
  \<open>nan\<close> on an empty series, the variance \<open>nan\<close> on at most one value. The order in
  which the library adds the values of an array depends on its length and layout, so
  the summation is a parameter \<open>fsum\<close> of the model.
\<close>

type_synonym summation = "npfloat list \<Rightarrow> npfloat"

definition np_mean :: "summation \<Rightarrow> real list \<Rightarrow> npfloat" where
  "np_mean fsum xs =
     (if xs = [] then NaN else np_div (fsum (map Fin xs)) (Fin (real (length xs))))"

definition np_var :: "summation \<Rightarrow> real list \<Rightarrow> npfloat" where
  "np_var fsum xs =
     (if length xs \<le> 1 then NaN
      else let avg = np_div (fsum (map Fin xs)) (Fin (real (length xs)));
               sqr = map (\<lambda>x. np_mul (np_sub avg (Fin x)) (np_sub avg (Fin x))) xs
           in np_div (fsum sqr) (Fin (real (length xs - 1))))"

definition np_std :: "summation \<Rightarrow> real list \<Rightarrow> npfloat" where
  "np_std fsum xs = np_sqrt (np_var fsum xs)"

text \<open>
  Adding from left to right, starting from zero: the order in which numpy adds fewer
  than eight values. A sum whose partial sums are all exact, as of a few small
  integers, is the same in every order.
\<close>

definition left_to_right :: summation where
  "left_to_right xs = foldl np_add (Fin 0) xs"

text \<open>\<open>frame[mask]\<close>: the rows at which the boolean series is true.\<close>

definition mask_rows :: "bool list \<Rightarrow> 'a list \<Rightarrow> 'a list" where
  "mask_rows flags rows = map snd (filter fst (zip flags rows))"

text \<open>\<open>series.iloc[0]\<close> raises IndexError on an empty series.\<close>

definition iloc0 :: "'a list \<Rightarrow> py_error + 'a" where
  "iloc0 xs = (case xs of [] \<Rightarrow> Inl IndexError | x # _ \<Rightarrow> Inr x)"

text \<open>
  A \<open>for\<close> loop whose body updates a local state and may raise: the first exception
  ends the loop.
\<close>

fun for_each :: "('a \<Rightarrow> 's \<Rightarrow> py_error + 's) \<Rightarrow> 'a list \<Rightarrow> 's \<Rightarrow> py_error + 's" where
  "for_each body [] s = Inr s"
| "for_each body (x # xs) s =
     (case body x s of Inl e \<Rightarrow> Inl e | Inr s' \<Rightarrow> for_each body xs s')"

section \<open>Anomaly detection\<close>

record anomaly =
  anom_department :: string
  anom_date :: int
  anom_metric :: metric
  anom_value :: real

definition dept_rows :: "dataframe \<Rightarrow> string \<Rightarrow> dataframe" where
  "dept_rows df dept = filter (\<lambda>r. department r = dept) df"

text \<open>Line 79: \<open>np.abs((series - series.mean()) / series.std())\<close>.\<close>

definition z_scores :: "summation \<Rightarrow> real list \<Rightarrow> npfloat list" where
  "z_scores fsum series =
     map (\<lambda>v. np_abs (np_div (np_sub (Fin v) (np_mean fsum series)) (np_std fsum series)))
       series"

definition anomaly_dates :: "summation \<Rightarrow> dataframe \<Rightarrow> metric \<Rightarrow> int list" where
  "anomaly_dates fsum dept_data m =
     map date
       (mask_rows (map (\<lambda>z. np_gt z (Fin 2)) (z_scores fsum (map (column m) dept_data)))
          dept_data)"

definition detect_anomalies :: "summation \<Rightarrow> dataframe \<Rightarrow> py_error + anomaly list" where
  "detect_anomalies fsum df =
     for_each (\<lambda>dept anomalies.
        let dept_data = dept_rows df dept in
        for_each (\<lambda>m anomalies.
           for_each (\<lambda>d anomalies.
              case iloc0 (map (column m) (filter (\<lambda>r. date r = d) dept_data)) of
                Inl e \<Rightarrow> Inl e
              | Inr v \<Rightarrow>
                  Inr (anomalies @
                       [\<lparr>anom_department = dept, anom_date = d, anom_metric = m,
                         anom_value = v\<rparr>]))
             (anomaly_dates fsum dept_data m) anomalies)
          [StaffHours, BudgetSpent, ResourceUtilization] anomalies)
       (unique (map department df)) []"

section \<open>Forecasting\<close>

text \<open>
  Prophet is an external library. \<open>prophet history periods\<close> stands for lines 105 to 109:
  fitting a model on the history frame (columns \<open>ds\<close>, \<open>y\<close>) and predicting over
  \<open>make_future_dataframe(periods)\<close>; it is a parameter of the model. A fit that fails
  raises.
\<close>

record forecast_point =
  ds :: int
  yhat :: real
  yhat_lower :: real
  yhat_upper :: real

type_synonym prophet = "(int \<times> real) list \<Rightarrow> nat \<Rightarrow> py_error + forecast_point list"

definition df_prophet :: "dataframe \<Rightarrow> string \<Rightarrow> (int \<times> real) list" where
  "df_prophet df dept = map (\<lambda>r. (date r, resource_utilization r)) (dept_rows df dept)"

definition forecast_resources ::
  "prophet \<Rightarrow> dataframe \<Rightarrow> py_error + (string \<rightharpoonup> forecast_point list)" where
  "forecast_resources fit_predict df =
     for_each (\<lambda>dept forecasts.
        case fit_predict (df_prophet df dept) 90 of
          Inl e \<Rightarrow> Inl e
        | Inr forecast \<Rightarrow> Inr (forecasts(dept \<mapsto> forecast)))
       (unique (map department df)) Map.empty"

text \<open>
  A stand-in for Prophet in concrete runs. Like Prophet's \<open>fit\<close>, it raises ValueError
  on a history of fewer than two rows; its forecasts carry no points.
\<close>

definition refusing_prophet :: prophet where
  "refusing_prophet history periods = (if length history < 2 then Inl ValueError else Inr [])"

section \<open>Recommendation service\<close>

text \<open>A decoded JSON value, as \<open>json.loads\<close> returns it; an object is a dict.\<close>

datatype json =
  JNull | JBool bool | JNum real | JStr string | JArr "json list"
  | JObj "(string \<times> json) list"

subsection \<open>Python operations on the decoded value\<close>

text \<open>\<open>value[key]\<close> with a string key: KeyError on a dict without the key, TypeError
  on every other JSON value.\<close>

fun py_getitem :: "json \<Rightarrow> string \<Rightarrow> py_error + json" where
  "py_getitem (JObj kvs) k = (case map_of kvs k of None \<Rightarrow> Inl KeyError | Some v \<Rightarrow> Inr v)"
| "py_getitem _ k = Inl TypeError"

text \<open>\<open>str.strip(chars)\<close> removes the given characters from both ends.\<close>

definition str_strip :: "string \<Rightarrow> string \<Rightarrow> string" where
  "str_strip chars s =
     rev (dropWhile (\<lambda>c. c \<in> set chars) (rev (dropWhile (\<lambda>c. c \<in> set chars) s)))"

text \<open>\<open>value.strip(chars)\<close>: only a string has the method.\<close>

fun py_strip :: "json \<Rightarrow> string \<Rightarrow> py_error + string" where
  "py_strip (JStr s) chars = Inr (str_strip chars s)"
| "py_strip _ chars = Inl AttributeError"

text \<open>
  \<open>float(s)\<close>, after the grammar of the language reference: surrounding whitespace
  is dropped; an optional sign; then \<open>inf\<close>, \<open>infinity\<close> or \<open>nan\<close> in any case,
  or a decimal number (digits with single underscores between them, an optional
  fraction, an optional exponent), which is rounded to the nearest float64. Anything
  else raises ValueError. A string is a list of 8-bit characters, read as the code
  points below 256: among these the whitespace that \<open>float\<close> drops is tab to carriage
  return, the space, and the two blanks \<open>0x85\<close> and \<open>0xA0\<close>; the only decimal
  digits are \<open>0\<close> to \<open>9\<close>.
\<close>

definition is_space :: "char \<Rightarrow> bool" where
  "is_space c = (c \<in> set [CHR 0x09, CHR 0x0A, CHR 0x0B, CHR 0x0C, CHR 0x0D, CHR 0x20,
                           CHR 0x85, CHR 0xA0])"

definition is_digit :: "char \<Rightarrow> bool" where
  "is_digit c = (CHR ''0'' \<le> c \<and> c \<le> CHR ''9'')"

definition digit_val :: "char \<Rightarrow> nat" where
  "digit_val c = of_char c - of_char CHR ''0''"

definition lower :: "char \<Rightarrow> char" where
  "lower c = (if CHR ''A'' \<le> c \<and> c \<le> CHR ''Z'' then char_of (of_char c + (32::nat)) else c)"

text \<open>The rest of a digit part, after its first digit: \<open>(["_"] digit)*\<close>.\<close>

fun digitpart_rest :: "string \<Rightarrow> nat list \<times> string" where
  "digitpart_rest [] = ([], [])"
| "digitpart_rest [c] = (if is_digit c then ([digit_val c], []) else ([], [c]))"
| "digitpart_rest (c # d # cs) =
     (if is_digit c then
        (case digitpart_rest (d # cs) of (dgs, r) \<Rightarrow> (digit_val c # dgs, r))
      else if c = CHR ''_'' \<and> is_digit d then
        (case digitpart_rest cs of (dgs, r) \<Rightarrow> (digit_val d # dgs, r))
      else ([], c # d # cs))"

definition digitpart :: "string \<Rightarrow> (nat list \<times> string) option" where
  "digitpart s =
     (case s of
        [] \<Rightarrow> None
      | c # cs \<Rightarrow>
          if is_digit c then
            (case digitpart_rest cs of (dgs, r) \<Rightarrow> Some (digit_val c # dgs, r))
          else None)"

definition nat_of_digits :: "nat list \<Rightarrow> nat" where
  "nat_of_digits dgs = foldl (\<lambda>a d. 10 * a + d) 0 dgs"

text \<open>\<open>[digitpart] "." digitpart | digitpart ["."]\<close>: the integer digits, the
  fraction digits and the rest of the string.\<close>

definition number :: "string \<Rightarrow> ((nat list \<times> nat list) \<times> string) option" where
  "number s =
     (case digitpart s of
        Some (ip, r1) \<Rightarrow>
          (case r1 of
             [] \<Rightarrow> Some ((ip, []), r1)
           | c # r2 \<Rightarrow>
               if c = CHR ''.'' then
                 (case digitpart r2 of
                    Some (fp, r3) \<Rightarrow> Some ((ip, fp), r3)
                  | None \<Rightarrow> Some ((ip, []), r2))
               else Some ((ip, []), r1))
      | None \<Rightarrow>
          (case s of
             [] \<Rightarrow> None
           | c # r2 \<Rightarrow>
               if c = CHR ''.'' then
                 (case digitpart r2 of
                    Some (fp, r3) \<Rightarrow> Some (([], fp), r3)
                  | None \<Rightarrow> None)
               else None))"

text \<open>What follows the number: nothing, or an exponent that ends the string.\<close>

definition exponent :: "string \<Rightarrow> int option" where
  "exponent r =
     (case r of
        [] \<Rightarrow> Some 0
      | c # r1 \<Rightarrow>
          if c = CHR ''e'' \<or> c = CHR ''E'' then
            (let (sg, r2) =
                   (case r1 of
                      [] \<Rightarrow> (1, r1)
                    | s # r' \<Rightarrow>
                        if s = CHR ''-'' then (- 1, r')
                        else if s = CHR ''+'' then (1, r') else (1, r1))
             in case digitpart r2 of
                  Some (dgs, []) \<Rightarrow> Some (sg * int (nat_of_digits dgs))
                | _ \<Rightarrow> None)
          else None)"

definition scale10 :: "real \<Rightarrow> int \<Rightarrow> real" where
  "scale10 x e = (if 0 \<le> e then x * 10 ^ nat e else x / 10 ^ nat (- e))"

definition absfloatvalue :: "string \<Rightarrow> npfloat option" where
  "absfloatvalue s =
     (if map lower s = ''inf'' \<or> map lower s = ''infinity'' then Some PInf
      else if map lower s = ''nan'' then Some NaN
      else case number s of
             None \<Rightarrow> None
           | Some ((ip, fp), r) \<Rightarrow>
               (case exponent r of
                  None \<Rightarrow> None
                | Some e \<Rightarrow>
                    Some (rnd64 (scale10 (real (nat_of_digits (ip @ fp)) / 10 ^ length fp) e))))"

definition py_float :: "string \<Rightarrow> py_error + npfloat" where
  "py_float s =
     (let t = rev (dropWhile is_space (rev (dropWhile is_space s)));
          (negative, u) =
             (case t of
                [] \<Rightarrow> (False, t)
              | c # t' \<Rightarrow>
                  if c = CHR ''-'' then (True, t')
                  else if c = CHR ''+'' then (False, t') else (False, t))
      in case absfloatvalue u of
           None \<Rightarrow> Inl ValueError
         | Some v \<Rightarrow> Inr (if negative then np_neg v else v))"

text \<open>Line 144: \<open>float(ai_analysis['potential_savings'].strip('%'))\<close>.\<close>

definition savings_percent :: "json \<Rightarrow> py_error + npfloat" where
  "savings_percent ai_analysis =
     (case py_getitem ai_analysis ''potential_savings'' of
        Inl e \<Rightarrow> Inl e
      | Inr v \<Rightarrow> (case py_strip v ''%'' of Inl e \<Rightarrow> Inl e | Inr s \<Rightarrow> py_float s))"

section \<open>The insights report\<close>

record department_metrics =
  dm_resource_utilization :: "(string \<times> npfloat) list"
  dm_budget_spent :: "(string \<times> real) list"
  dm_productivity_score :: "(string \<times> npfloat) list"

record metrics_summary =
  avg_utilization :: npfloat
  total_budget :: npfloat
  productivity_correlation :: npfloat
  department_metrics :: department_metrics

text \<open>
  \<open>df.groupby(key)[col].agg(f)\<close>: one entry per distinct key, in sorted key order.
\<close>

definition groupby_agg ::
  "(metric_record \<Rightarrow> 'k::linorder) \<Rightarrow> (metric_record \<Rightarrow> real) \<Rightarrow> (real list \<Rightarrow> 'v) \<Rightarrow>
   dataframe \<Rightarrow> ('k \<times> 'v) list" where
  "groupby_agg key col agg df =
     map (\<lambda>k. (k, agg (map col (filter (\<lambda>r. key r = k) df)))) (sort (remdups (map key df)))"

text \<open>
  \<open>Series.corr\<close>, Pearson: \<open>nan\<close> for fewer than two rows or when one of the series
  is constant. The correlation and the aggregates per department are entries of the
  summary that no later step computes with; they are given by their defining formulas
  over the reals.
\<close>

definition group_mean :: "real list \<Rightarrow> npfloat" where
  "group_mean xs = (if xs = [] then NaN else Fin (sum_list xs / real (length xs)))"

definition np_corr :: "real list \<Rightarrow> real list \<Rightarrow> npfloat" where
  "np_corr xs ys =
     (let mx = sum_list xs / real (length xs);
          my = sum_list ys / real (length ys);
          sxy = sum_list (map (\<lambda>(x, y). (x - mx) * (y - my)) (zip xs ys));
          sxx = sum_list (map (\<lambda>x. (x - mx)\<^sup>2) xs);
          syy = sum_list (map (\<lambda>y. (y - my)\<^sup>2) ys)
      in if length xs < 2 \<or> sxx = 0 \<or> syy = 0 then NaN
         else Fin (sxy / (sqrt sxx * sqrt syy)))"

text \<open>Lines 118 to 127.\<close>

definition summarize :: "summation \<Rightarrow> dataframe \<Rightarrow> metrics_summary" where
  "summarize fsum df =
     \<lparr>avg_utilization = np_mean fsum (map resource_utilization df),
      total_budget = fsum (map Fin (map budget_spent df)),
      productivity_correlation =
        np_corr (map resource_utilization df) (map productivity_score df),
      department_metrics =
        \<lparr>dm_resource_utilization = groupby_agg department resource_utilization group_mean df,
         dm_budget_spent = groupby_agg department budget_spent sum_list df,
         dm_productivity_score = groupby_agg department productivity_score group_mean df\<rparr>\<rparr>"

text \<open>
  \<open>analyze_with_gpt\<close> builds the prompt from the summary, sends it to the chat service
  and returns \<open>json.loads\<close> of the answer's text. The round trip through the service
  and the decoder is the parameter \<open>service\<close>: it raises (a transport error, or
  JSONDecodeError on text that is not JSON) or gives the decoded value. The function
  does not look at the decoded value.
\<close>

type_synonym gpt_service = "metrics_summary \<Rightarrow> py_error + json"

definition analyze_with_gpt :: "gpt_service \<Rightarrow> metrics_summary \<Rightarrow> py_error + json" where
  "analyze_with_gpt service summary = service summary"

text \<open>A mocked service: the same outcome for every request.\<close>

definition mocked_service :: "py_error + json \<Rightarrow> gpt_service" where
  "mocked_service outcome = (\<lambda>summary. outcome)"

text \<open>
  The charts written by \<open>write_html\<close>: the kind of chart, its title and the plotted
  data. The files of the working directory are a map from file name to content.
\<close>

datatype chart =
  BoxChart string "(string \<times> real) list"
  | LineChart string "(int \<times> real) list"

type_synonym files = "string \<rightharpoonup> chart"

record report =
  metrics_summary :: metrics_summary
  ai_recommendations :: json
  anomalies :: nat
  potential_annual_savings :: npfloat
  analysis_date :: string

definition util_by_dept :: "dataframe \<Rightarrow> chart" where
  "util_by_dept df =
     BoxChart ''Resource Utilization by Department''
       (map (\<lambda>r. (department r, resource_utilization r)) df)"

definition budget_trend :: "dataframe \<Rightarrow> chart" where
  "budget_trend df =
     LineChart ''Budget Trend Over Time'' (groupby_agg date budget_spent sum_list df)"

text \<open>
  \<open>generate_insights_report\<close>, with the summation of the library, the clock
  reading \<open>today\<close> (the formatted date) and the files of the working directory made
  explicit. It returns the files as it
  leaves them, and the report or the exception.
\<close>

definition generate_insights_report ::
  "summation \<Rightarrow> gpt_service \<Rightarrow> string \<Rightarrow> files \<Rightarrow> dataframe \<Rightarrow>
   files \<times> (py_error + report)" where
  "generate_insights_report fsum service today fs df =
     (let summary = summarize fsum df in
      case analyze_with_gpt service summary of
        Inl e \<Rightarrow> (fs, Inl e)
      | Inr ai_analysis \<Rightarrow>
          let fs1 = fs(''utilization_by_dept.html'' \<mapsto> util_by_dept df);
              fs2 = fs1(''budget_trend.html'' \<mapsto> budget_trend df)
          in case savings_percent ai_analysis of
               Inl e \<Rightarrow> (fs2, Inl e)
             | Inr percent \<Rightarrow>
                 let savings =
                       np_div (np_mul (np_mul (np_sub (Fin 100) (avg_utilization summary))
                                         (total_budget summary))
                                 percent)
                         (Fin 10000)
                 in case detect_anomalies fsum df of
                      Inl e \<Rightarrow> (fs2, Inl e)
                    | Inr found \<Rightarrow>
                        (fs2, Inr \<lparr>metrics_summary = summary,
                                   ai_recommendations = ai_analysis,
                                   anomalies = length found,
                                   potential_annual_savings = savings,
                                   analysis_date = today\<rparr>))"

section \<open>Closed forms used in the proofs\<close>

text \<open>
  The flag that line 80 computes for one value of a series, the rows of a department
  that it selects, and the record that lines 83 to 88 append for a selected row: the
  value is read from the first row of the department with the row's date.
\<close>

definition zflag :: "summation \<Rightarrow> real list \<Rightarrow> real \<Rightarrow> bool" where
  "zflag fsum series v =
     np_gt (np_abs (np_div (np_sub (Fin v) (np_mean fsum series)) (np_std fsum series)))
       (Fin 2)"

definition flagged_rows :: "summation \<Rightarrow> dataframe \<Rightarrow> string \<Rightarrow> metric \<Rightarrow> dataframe" where
  "flagged_rows fsum df dept m =
     filter (\<lambda>r. zflag fsum (map (column m) (dept_rows df dept)) (column m r))
       (dept_rows df dept)"

definition anomaly_of :: "dataframe \<Rightarrow> string \<Rightarrow> metric \<Rightarrow> metric_record \<Rightarrow> anomaly" where
  "anomaly_of dept_data dept m r =
     \<lparr>anom_department = dept, anom_date = date r, anom_metric = m,
      anom_value = (case find (\<lambda>r'. date r' = date r) dept_data of
                      Some r' \<Rightarrow> column m r' | None \<Rightarrow> column m r)\<rparr>"

definition metrics :: "metric list" where
  "metrics = [StaffHours, BudgetSpent, ResourceUtilization]"

definition expected_anomalies :: "summation \<Rightarrow> dataframe \<Rightarrow> anomaly list" where
  "expected_anomalies fsum df =
     concat (map (\<lambda>dept. concat (map (\<lambda>m.
        map (anomaly_of (dept_rows df dept) dept m) (flagged_rows fsum df dept m)) metrics))
       (unique (map department df)))"

text \<open>The savings estimate of lines 142 to 144 for a parsed percentage: the
  operations in the order the code makes them, each rounded.\<close>

definition savings_estimate :: "metrics_summary \<Rightarrow> npfloat \<Rightarrow> npfloat" where
  "savings_estimate summary percent =
     np_div (np_mul (np_mul (np_sub (Fin 100) (avg_utilization summary))
                       (total_budget summary))
               percent)
       (Fin 10000)"

section \<open>Concrete tables and service answers\<close>

definition day_row :: "string \<Rightarrow> int \<Rightarrow> real \<Rightarrow> real \<Rightarrow> real \<Rightarrow> metric_record" where
  "day_row dept d hours budget util =
     \<lparr>date = d, department = dept, staff_hours = hours, budget_spent = budget,
      resource_utilization = util, productivity_score = 85\<rparr>"

text \<open>Nine days of one department: constant budget and utilization, staff hours
  \<open>0\<close> except for \<open>9\<close> on the last day.\<close>

definition outlier_table :: dataframe where
  "outlier_table =
     [day_row ''IT'' 1 0 100 75, day_row ''IT'' 2 0 100 75, day_row ''IT'' 3 0 100 75,
      day_row ''IT'' 4 0 100 75, day_row ''IT'' 5 0 100 75, day_row ''IT'' 6 0 100 75,
      day_row ''IT'' 7 0 100 75, day_row ''IT'' 8 0 100 75, day_row ''IT'' 9 9 100 75]"

text \<open>Two days of one department: average utilization \<open>80\<close>, total budget
  \<open>1000000\<close>.\<close>

definition small_table :: dataframe where
  "small_table = [day_row ''IT'' 1 8 400000 70, day_row ''IT'' 2 8 600000 90]"

text \<open>Two days of Sales followed by a single day of IT.\<close>

definition two_dept_table :: dataframe where
  "two_dept_table =
     [day_row ''Sales'' 1 8 100 70, day_row ''Sales'' 2 8 100 90, day_row ''IT'' 1 8 100 75]"

definition full_reply :: json where
  "full_reply =
     JObj [(''identified_inefficiencies'', JArr [JStr ''idle capacity'']),
           (''optimization_suggestions'', JArr [JStr ''rebalance staff'']),
           (''potential_savings'', JStr ''10%''),
           (''priority_actions'', JArr [JStr ''a'', JStr ''b'', JStr ''c''])]"

text \<open>A JSON object without the field \<open>priority_actions\<close>.\<close>

definition partial_reply :: json where
  "partial_reply =
     JObj [(''identified_inefficiencies'', JArr [JStr ''idle capacity'']),
           (''optimization_suggestions'', JArr [JStr ''rebalance staff'']),
           (''potential_savings'', JStr ''10%'')]"

text \<open>A complete answer whose savings percentage is out of range.\<close>

definition excessive_reply :: json where
  "excessive_reply =
     JObj [(''identified_inefficiencies'', JArr [JStr ''idle capacity'']),
           (''optimization_suggestions'', JArr [JStr ''rebalance staff'']),
           (''potential_savings'', JStr ''150%''),
           (''priority_actions'', JArr [JStr ''a'', JStr ''b'', JStr ''c''])]"

text \<open>An answer with the percentage \<open>0.17%\<close>.\<close>

definition odd_reply :: json where
  "odd_reply =
     JObj [(''identified_inefficiencies'', JArr [JStr ''idle capacity'']),
           (''optimization_suggestions'', JArr [JStr ''rebalance staff'']),
           (''potential_savings'', JStr ''0.17%''),
           (''priority_actions'', JArr [JStr ''a'', JStr ''b'', JStr ''c''])]"

text \<open>
  Six days of one department with the staff hours \<open>1.9\<close>, \<open>1.7\<close>, \<open>1.6\<close>, \<open>1.5\<close>,
  \<open>1.3\<close> and \<open>4.0\<close>, each the float64 number that the decimal denotes.
\<close>

definition threshold_hours :: "real list" where
  "threshold_hours =
     [8556839292003942 / 2 ^ 52, 7656119366529843 / 2 ^ 52, 7205759403792794 / 2 ^ 52,
      3 / 2, 5854679515581645 / 2 ^ 52, 4]"

definition threshold_table :: dataframe where
  "threshold_table = map (\<lambda>(d, h). day_row ''IT'' d h 100 75) (zip [1, 2, 3, 4, 5, 6] threshold_hours)"

text \<open>
  Three days of one department with the same staff hours on each day, the float64
  number \<open>0.1 * 2^-500\<close>.
\<close>

definition tiny_hours :: real where
  "tiny_hours = 3602879701896397 / 2 ^ 555"

definition tiny_table :: dataframe where
  "tiny_table =
     [day_row ''IT'' 1 tiny_hours 100 75, day_row ''IT'' 2 tiny_hours 100 75,
      day_row ''IT'' 3 tiny_hours 100 75]"

section \<open>Properties of anomaly detection\<close>

subsection \<open>The loop in closed form\<close>

text \<open>
  The three nested loops never raise: each date the inner loop looks up comes from a
  row of the department, so the selection that \<open>iloc[0]\<close> reads has that row.
\<close>

lemma for_each_append:
  "(\<And>x s. x \<in> set xs \<Longrightarrow> body x s = Inr (s @ g x)) \<Longrightarrow>
   for_each body xs s = Inr (s @ concat (map g xs))"
  by (induction xs arbitrary: s) simp_all

lemma mask_rows_map: "mask_rows (map p rows) rows = filter p rows"
  unfolding mask_rows_def by (induction rows) simp_all

lemma anomaly_dates_flagged:
  "anomaly_dates fsum (dept_rows df dept) m = map date (flagged_rows fsum df dept m)"
proof -
  let ?rows = "dept_rows df dept"
  have "map (\<lambda>z. np_gt z (Fin 2)) (z_scores fsum (map (column m) ?rows))
        = map (\<lambda>r. zflag fsum (map (column m) ?rows) (column m r)) ?rows"
    by (simp add: z_scores_def zflag_def comp_def)
  then show ?thesis
    by (simp add: anomaly_dates_def flagged_rows_def mask_rows_map)
qed

lemma iloc0_filter_find:
  "iloc0 (map f (filter P xs)) = (case find P xs of None \<Rightarrow> Inl IndexError | Some r \<Rightarrow> Inr (f r))"
  by (induction xs) (simp_all add: iloc0_def)

lemma find_in_rows:
  "r \<in> set rows \<Longrightarrow> \<exists>r'. find (\<lambda>r'. date r' = date r) rows = Some r'"
  by (cases "find (\<lambda>r'. date r' = date r) rows") (auto simp: find_None_iff)

lemma set_unique [simp]: "set (unique xs) = set xs"
  by (induction xs rule: unique.induct) auto

lemma distinct_unique [simp]: "distinct (unique xs)"
  by (induction xs rule: unique.induct) auto

lemma detect_anomalies_expected: "detect_anomalies fsum df = Inr (expected_anomalies fsum df)"
proof -
  have inner: "for_each (\<lambda>d anomalies.
              case iloc0 (map (column m) (filter (\<lambda>r. date r = d) (dept_rows df dept))) of
                Inl e \<Rightarrow> Inl e
              | Inr v \<Rightarrow>
                  Inr (anomalies @
                       [\<lparr>anom_department = dept, anom_date = d, anom_metric = m,
                         anom_value = v\<rparr>]))
             (map date rs) s
        = Inr (s @ map (anomaly_of (dept_rows df dept) dept m) rs)"
    if "set rs \<subseteq> set (dept_rows df dept)" for dept m rs s
    using that
  proof (induction rs arbitrary: s)
    case Nil
    then show ?case by simp
  next
    case (Cons r rs)
    from Cons.prems obtain r' where
      "find (\<lambda>r'. date r' = date r) (dept_rows df dept) = Some r'"
      using find_in_rows [of r "dept_rows df dept"] by auto
    with Cons show ?case
      by (simp add: iloc0_filter_find anomaly_of_def)
  qed
  have middle: "for_each (\<lambda>m anomalies.
           for_each (\<lambda>d anomalies.
              case iloc0 (map (column m) (filter (\<lambda>r. date r = d) (dept_rows df dept))) of
                Inl e \<Rightarrow> Inl e
              | Inr v \<Rightarrow>
                  Inr (anomalies @
                       [\<lparr>anom_department = dept, anom_date = d, anom_metric = m,
                         anom_value = v\<rparr>]))
             (anomaly_dates fsum (dept_rows df dept) m) anomalies) ms s
        = Inr (s @ concat (map (\<lambda>m. map (anomaly_of (dept_rows df dept) dept m)
                                       (flagged_rows fsum df dept m)) ms))" for dept ms s
    by (rule for_each_append)
       (simp add: anomaly_dates_flagged inner flagged_rows_def)
  show ?thesis
    unfolding detect_anomalies_def expected_anomalies_def Let_def metrics_def
    using for_each_append [where s = "[]" and xs = "unique (map department df)"
        and g = "\<lambda>dept. concat (map (\<lambda>m. map (anomaly_of (dept_rows df dept) dept m)
                                       (flagged_rows fsum df dept m)) [StaffHours, BudgetSpent, ResourceUtilization])"]
    by (simp add: middle)
qed

lemma concat_map_single:
  "distinct xs \<Longrightarrow>
   concat (map (\<lambda>x. if x = d then g x else []) xs) = (if d \<in> set xs then g d else [])"
  by (induction xs) auto

lemma filter_metric_block:
  "[a\<leftarrow>concat (map (\<lambda>m'. map (anomaly_of rows dept m') (fl m')) metrics).
      anom_department a = d \<and> anom_metric a = m]
   = (if dept = d then map (anomaly_of rows dept m) (fl m) else [])"
  by (cases m) (simp_all add: metrics_def filter_map comp_def anomaly_of_def)

lemma flagged_rows_absent:
  "d \<notin> set (map department df) \<Longrightarrow> flagged_rows fsum df d m = []"
proof -
  assume "d \<notin> set (map department df)"
  then have "dept_rows df d = []"
    by (auto simp: dept_rows_def filter_empty_conv)
  then show ?thesis by (simp add: flagged_rows_def)
qed

lemma filter_concat_map:
  "filter P (concat (map f xs)) = concat (map (\<lambda>x. filter P (f x)) xs)"
  by (induction xs) simp_all

lemma filter_expected:
  "[a\<leftarrow>expected_anomalies fsum df. anom_department a = d \<and> anom_metric a = m]
   = map (anomaly_of (dept_rows df d) d m) (flagged_rows fsum df d m)"
proof -
  let ?g = "\<lambda>dept. map (anomaly_of (dept_rows df dept) dept m) (flagged_rows fsum df dept m)"
  have "[a\<leftarrow>expected_anomalies fsum df. anom_department a = d \<and> anom_metric a = m]
        = concat (map (\<lambda>dept. if dept = d then ?g dept else []) (unique (map department df)))"
    unfolding expected_anomalies_def
    by (subst filter_concat_map) (simp only: filter_metric_block)
  also have "\<dots> = (if d \<in> set (unique (map department df)) then ?g d else [])"
    by (rule concat_map_single) simp
  also have "\<dots> = ?g d"
    using flagged_rows_absent [of d df fsum m] by simp
  finally show ?thesis .
qed

subsection \<open>The z-score of a value\<close>

lemma np_std_formula:
  assumes "2 \<le> length xs"
  shows "np_std fsum xs =
           np_sqrt (np_div
             (fsum (map (\<lambda>x. np_mul
                      (np_sub (np_div (fsum (map Fin xs)) (Fin (real (length xs)))) (Fin x))
                      (np_sub (np_div (fsum (map Fin xs)) (Fin (real (length xs)))) (Fin x))) xs))
             (Fin (real (length xs - 1))))"
  using assms by (simp add: np_std_def np_var_def Let_def)

lemma np_mean_formula:
  assumes "2 \<le> length xs"
  shows "np_mean fsum xs = np_div (fsum (map Fin xs)) (Fin (real (length xs)))"
  using assms by (auto simp: np_mean_def)

lemma np_div_zero:
  "np_div a (Fin 0) = (if a = Fin 0 \<or> a = NaN then NaN else signed_inf (np_sign a))"
  by (cases a) simp_all

lemma np_gt_abs_signed_inf: "np_gt (np_abs (signed_inf i)) (Fin 2)"
  by (simp add: signed_inf_def)

lemma zflag_zero_std:
  assumes "np_std fsum xs = Fin 0"
  shows "zflag fsum xs v
         = (np_sub (Fin v) (np_mean fsum xs) \<noteq> Fin 0 \<and> np_sub (Fin v) (np_mean fsum xs) \<noteq> NaN)"
  by (simp add: zflag_def assms np_div_zero np_gt_abs_signed_inf)

lemma np_std_Fin_length: "np_std fsum xs = Fin s \<Longrightarrow> 2 \<le> length xs"
  by (cases "length xs \<le> 1") (simp_all add: np_std_def np_var_def)

text \<open>
  Claim C1, as amended. Let \<open>xs\<close> be the series of a metric in a department with at
  least two rows, \<open>avg\<close> its float64 mean (the sum over the count) and \<open>s\<close> its
  float64 sample standard deviation (the rounded root of the sum of the squared
  differences \<open>avg - x\<close> over \<open>n - 1\<close>), not zero. Then \<open>detect_anomalies\<close> returns, for
  that department and metric, one record for each row whose float64 z-score
  \<open>|v - avg| / s\<close>, with the difference and the quotient rounded, exceeds \<open>2\<close>, in row
  order, and no other record.
\<close>

theorem detect_flags_float_z:
  assumes "xs = map (column m) (dept_rows df d)"
    and "2 \<le> length xs"
    and "avg = np_div (fsum (map Fin xs)) (Fin (real (length xs)))"
    and "np_sqrt (np_div
           (fsum (map (\<lambda>x. np_mul (np_sub avg (Fin x)) (np_sub avg (Fin x))) xs))
           (Fin (real (length xs - 1)))) = Fin s"
    and "s \<noteq> 0"
  shows "\<exists>found. detect_anomalies fsum df = Inr found \<and>
           map anom_date [a\<leftarrow>found. anom_department a = d \<and> anom_metric a = m]
           = map date [r\<leftarrow>dept_rows df d.
               np_gt (np_abs (np_div (np_sub (Fin (column m r)) avg) (Fin s))) (Fin 2)]"
proof -
  have std: "np_std fsum xs = Fin s"
    using assms(3,4) by (simp add: np_std_formula [OF assms(2)])
  have mean: "np_mean fsum xs = avg"
    using assms(3) by (simp add: np_mean_formula [OF assms(2)])
  have "flagged_rows fsum df d m = [r\<leftarrow>dept_rows df d.
               np_gt (np_abs (np_div (np_sub (Fin (column m r)) avg) (Fin s))) (Fin 2)]"
    unfolding flagged_rows_def zflag_def
    using std mean assms(1) by simp
  then show ?thesis
    by (simp add: detect_anomalies_expected filter_expected comp_def anomaly_of_def)
qed

text \<open>
  Claim C3, as amended. When the float64 sample standard deviation of the series is
  zero, the division is made all the same: the z-score of a row is \<open>nan\<close> when the
  rounded difference of its value from the mean is zero, and \<open>inf\<close> otherwise. So
  \<open>detect_anomalies\<close> flags, for that department and metric, exactly the rows whose
  value differs from the computed mean, and none when every value equals it.
\<close>

theorem zero_std_flags_unequal:
  assumes "xs = map (column m) (dept_rows df d)"
    and "2 \<le> length xs"
    and "avg = np_div (fsum (map Fin xs)) (Fin (real (length xs)))"
    and "np_sqrt (np_div
           (fsum (map (\<lambda>x. np_mul (np_sub avg (Fin x)) (np_sub avg (Fin x))) xs))
           (Fin (real (length xs - 1)))) = Fin 0"
  shows "\<exists>found. detect_anomalies fsum df = Inr found \<and>
           map anom_date [a\<leftarrow>found. anom_department a = d \<and> anom_metric a = m]
           = map date [r\<leftarrow>dept_rows df d.
               np_sub (Fin (column m r)) avg \<noteq> Fin 0 \<and> np_sub (Fin (column m r)) avg \<noteq> NaN]"
proof -
  have std: "np_std fsum xs = Fin 0"
    using assms(3,4) by (simp add: np_std_formula [OF assms(2)])
  have mean: "np_mean fsum xs = avg"
    using assms(3) by (simp add: np_mean_formula [OF assms(2)])
  have "flagged_rows fsum df d m = [r\<leftarrow>dept_rows df d.
               np_sub (Fin (column m r)) avg \<noteq> Fin 0 \<and> np_sub (Fin (column m r)) avg \<noteq> NaN]"
    unfolding flagged_rows_def
    using zflag_zero_std [OF std] mean assms(1) by simp
  then show ?thesis
    by (simp add: detect_anomalies_expected filter_expected comp_def anomaly_of_def)
qed

subsection \<open>Evaluating the flags of a concrete series\<close>

lemma flagged_rows_mask:
  "flagged_rows fsum df d m =
     mask_rows (map (zflag fsum (map (column m) (dept_rows df d)))
                  (map (column m) (dept_rows df d)))
       (dept_rows df d)"
  by (simp add: flagged_rows_def mask_rows_map [symmetric] comp_def)

lemma zflags_from_parts:
  assumes "np_mean fsum xs = mu" and "np_var fsum xs = v" and "np_sqrt v = sd"
  shows "map (zflag fsum xs) ys
         = map (\<lambda>y. np_gt (np_abs (np_div (np_sub (Fin y) mu) sd)) (Fin 2)) ys"
  using assms by (simp add: zflag_def np_std_def)

lemmas rnd = rnd64_def float_exp_def round_to_def round_half_even_def

lemma np_sqrt_zero: "np_sqrt (Fin 0) = Fin 0"
  by (simp add: rnd64_def)

lemma np_sqrt_one: "np_sqrt (Fin 1) = Fin 1"
  by (simp add: rnd)

lemma np_sqrt_nine: "np_sqrt (Fin 9) = Fin 3"
proof -
  have "sqrt (3\<^sup>2) = 3" by simp
  then have "sqrt 9 = 3" by simp
  then show ?thesis by (simp add: rnd)
qed

subsection \<open>The nine-day table\<close>

lemma outlier_rows: "dept_rows outlier_table ''IT'' = outlier_table"
  by (simp add: dept_rows_def outlier_table_def day_row_def)

lemma outlier_staff_hours:
  "map (column StaffHours) outlier_table = [0, 0, 0, 0, 0, 0, 0, 0, 9]"
  by (simp add: outlier_table_def day_row_def)

lemma outlier_budget:
  "map (column BudgetSpent) outlier_table = [100, 100, 100, 100, 100, 100, 100, 100, 100]"
  by (simp add: outlier_table_def day_row_def)

lemma outlier_hours_flag_low: "np_gt (np_abs (np_div (np_sub (Fin 0) (Fin 1)) (Fin 3))) (Fin 2) = False"
  by (simp add: np_sub_def rnd)

lemma outlier_hours_flag_high: "np_gt (np_abs (np_div (np_sub (Fin 9) (Fin 1)) (Fin 3))) (Fin 2) = True"
  by (simp add: np_sub_def rnd)

lemma np_sub_same: "np_sub (Fin x) (Fin x) = Fin 0"
  by (simp add: np_sub_def rnd64_def)

text \<open>
  Claim C1 as amended, on the nine-day table: the staff hours have mean \<open>1\<close> and
  standard deviation \<open>3\<close>, and only day \<open>9\<close> is flagged.
\<close>

theorem detect_flags_float_z_witness:
  "\<exists>found. detect_anomalies left_to_right outlier_table = Inr found \<and>
      map anom_date [a\<leftarrow>found. anom_department a = ''IT'' \<and> anom_metric a = StaffHours] = [9]"
proof -
  let ?xs = "[0, 0, 0, 0, 0, 0, 0, 0, 9::real]"
  have 1: "?xs = map (column StaffHours) (dept_rows outlier_table ''IT'')"
    by (simp add: outlier_rows outlier_staff_hours)
  have 2: "2 \<le> length ?xs"
    by simp
  have 3: "Fin 1 = np_div (left_to_right (map Fin ?xs)) (Fin (real (length ?xs)))"
    by (simp add: left_to_right_def np_sub_def rnd)
  have v: "np_div
           (left_to_right (map (\<lambda>x. np_mul (np_sub (Fin 1) (Fin x)) (np_sub (Fin 1) (Fin x))) ?xs))
           (Fin (real (length ?xs - 1))) = Fin 9"
    by (simp add: left_to_right_def np_sub_def rnd)
  have 4: "np_sqrt (np_div
           (left_to_right (map (\<lambda>x. np_mul (np_sub (Fin 1) (Fin x)) (np_sub (Fin 1) (Fin x))) ?xs))
           (Fin (real (length ?xs - 1)))) = Fin 3"
    by (simp only: v np_sqrt_nine)
  have 5: "(3::real) \<noteq> 0"
    by simp
  have rows: "[r\<leftarrow>dept_rows outlier_table ''IT''.
               np_gt (np_abs (np_div (np_sub (Fin (column StaffHours r)) (Fin 1)) (Fin 3))) (Fin 2)]
             = [day_row ''IT'' 9 9 100 75]"
    unfolding outlier_rows
    by (simp add: outlier_table_def day_row_def outlier_hours_flag_low outlier_hours_flag_high)
  from detect_flags_float_z [OF 1 2 3 4 5]
  show ?thesis
    unfolding rows by (simp add: day_row_def)
qed

text \<open>
  Claim C3 as amended, on the constant budget column of the nine-day table: every value
  equals the mean \<open>100\<close>, and no day is flagged.
\<close>

theorem zero_std_flags_unequal_witness:
  "\<exists>found. detect_anomalies left_to_right outlier_table = Inr found \<and>
      map anom_date [a\<leftarrow>found. anom_department a = ''IT'' \<and> anom_metric a = BudgetSpent] = []"
proof -
  let ?xs = "[100, 100, 100, 100, 100, 100, 100, 100, 100::real]"
  have 1: "?xs = map (column BudgetSpent) (dept_rows outlier_table ''IT'')"
    by (simp add: outlier_rows outlier_budget)
  have 2: "2 \<le> length ?xs"
    by simp
  have 3: "Fin 100 = np_div (left_to_right (map Fin ?xs)) (Fin (real (length ?xs)))"
    by (simp add: left_to_right_def np_sub_def rnd)
  have v: "np_div
           (left_to_right (map (\<lambda>x. np_mul (np_sub (Fin 100) (Fin x)) (np_sub (Fin 100) (Fin x)))
              ?xs))
           (Fin (real (length ?xs - 1))) = Fin 0"
    by (simp add: left_to_right_def np_sub_def rnd)
  have 4: "np_sqrt (np_div
           (left_to_right (map (\<lambda>x. np_mul (np_sub (Fin 100) (Fin x)) (np_sub (Fin 100) (Fin x)))
              ?xs))
           (Fin (real (length ?xs - 1)))) = Fin 0"
    by (simp only: v np_sqrt_zero)
  have rows: "[r\<leftarrow>dept_rows outlier_table ''IT''.
               np_sub (Fin (column BudgetSpent r)) (Fin 100) \<noteq> Fin 0 \<and>
               np_sub (Fin (column BudgetSpent r)) (Fin 100) \<noteq> NaN] = []"
    unfolding outlier_rows
    by (simp add: outlier_table_def day_row_def np_sub_same)
  from zero_std_flags_unequal [OF 1 2 3 4]
  show ?thesis
    unfolding rows by simp
qed

lemma rnd64_zero: "rnd64 0 = Fin 0"
  by (simp add: rnd64_def)

lemma zero_over_not_flagged: "\<not> np_gt (np_abs (np_div (Fin 0) sd)) (Fin 2)"
  by (cases sd) (simp_all add: rnd64_zero)

lemma const_not_flagged:
  assumes "np_mean fsum xs = Fin c"
  shows "\<not> zflag fsum xs c"
  unfolding zflag_def assms np_sub_same by (rule zero_over_not_flagged)

lemma unflagged_series:
  assumes "\<forall>y\<in>set (map (column m) (dept_rows df d)).
             \<not> zflag fsum (map (column m) (dept_rows df d)) y"
  shows "flagged_rows fsum df d m = []"
  using assms by (simp add: flagged_rows_def filter_empty_conv)

subsection \<open>The six-day table at the threshold\<close>

lemma threshold_rows: "dept_rows threshold_table ''IT'' = threshold_table"
  by (simp add: dept_rows_def threshold_table_def threshold_hours_def day_row_def)

lemma threshold_staff_hours: "map (column StaffHours) threshold_table = threshold_hours"
  by (simp add: threshold_table_def threshold_hours_def day_row_def)

lemma threshold_budget: "map (column BudgetSpent) threshold_table = [100, 100, 100, 100, 100, 100]"
  by (simp add: threshold_table_def threshold_hours_def day_row_def)

lemma threshold_utilization:
  "map (column ResourceUtilization) threshold_table = [75, 75, 75, 75, 75, 75]"
  by (simp add: threshold_table_def threshold_hours_def day_row_def)

lemma threshold_mean: "np_mean left_to_right threshold_hours = Fin 2"
  by (simp add: np_mean_def threshold_hours_def left_to_right_def rnd)

lemma threshold_var: "np_var left_to_right threshold_hours = Fin 1"
  by (simp add: np_var_def threshold_hours_def left_to_right_def np_sub_def rnd)

lemma threshold_std: "np_std left_to_right threshold_hours = Fin 1"
  by (simp only: np_std_def threshold_var np_sqrt_one)

lemma threshold_flags:
  "map (\<lambda>y. np_gt (np_abs (np_div (np_sub (Fin y) (Fin 2)) (Fin 1))) (Fin 2)) threshold_hours
   = [False, False, False, False, False, False]"
  by (simp add: threshold_hours_def np_sub_def rnd)

lemma mean_six_hundreds: "np_mean left_to_right [100, 100, 100, 100, 100, 100] = Fin 100"
  by (simp add: np_mean_def left_to_right_def rnd)

lemma mean_six_75: "np_mean left_to_right [75, 75, 75, 75, 75, 75] = Fin 75"
  by (simp add: np_mean_def left_to_right_def rnd)

lemma threshold_unflagged: "flagged_rows left_to_right threshold_table ''IT'' m = []"
proof (cases m)
  case StaffHours
  have "map (zflag left_to_right threshold_hours) threshold_hours
        = [False, False, False, False, False, False]"
    using zflags_from_parts [OF threshold_mean threshold_var np_sqrt_one]
    by (simp only: threshold_flags)
  then show ?thesis
    unfolding StaffHours flagged_rows_mask threshold_rows threshold_staff_hours
    by (simp add: mask_rows_def threshold_table_def threshold_hours_def)
next
  case BudgetSpent
  show ?thesis
    unfolding BudgetSpent
    by (rule unflagged_series)
       (simp add: threshold_rows threshold_budget const_not_flagged [OF mean_six_hundreds])
next
  case ResourceUtilization
  show ?thesis
    unfolding ResourceUtilization
    by (rule unflagged_series)
       (simp add: threshold_rows threshold_utilization const_not_flagged [OF mean_six_75])
qed

lemma threshold_departments: "unique (map department threshold_table) = [''IT'']"
  by (simp add: threshold_table_def threshold_hours_def day_row_def)

lemma threshold_exact_mean: "sum_list threshold_hours / 6 = 2"
  by (simp add: threshold_hours_def)

lemma threshold_exact_variance:
  "sum_list (map (\<lambda>x. (x - 2)\<^sup>2) threshold_hours) / 5 < 1"
  by (simp add: threshold_hours_def power2_eq_square)

text \<open>
  Claim C1 as stated fails. On the six-day table the staff hours of day 6 lie more than
  two sample standard deviations from the mean in exact arithmetic, but in float64 the
  mean is \<open>2.0\<close>, the standard deviation \<open>1.0\<close> and the z-score of day 6 exactly
  \<open>2.0\<close>: no record is returned.
\<close>

theorem exact_z_counterexample:
  "map staff_hours threshold_table = threshold_hours \<and>
   np_std left_to_right threshold_hours = Fin 1 \<and>
   2 < \<bar>4 - sum_list threshold_hours / 6\<bar>
       / sqrt (sum_list (map (\<lambda>x. (x - sum_list threshold_hours / 6)\<^sup>2) threshold_hours) / 5) \<and>
   detect_anomalies left_to_right threshold_table = Inr []"
proof -
  let ?V = "sum_list (map (\<lambda>x. (x - 2)\<^sup>2) threshold_hours) / 5"
  have "0 < ?V"
    by (simp add: threshold_hours_def power2_eq_square)
  moreover have "sqrt ?V < sqrt 1"
    using threshold_exact_variance by (simp only: real_sqrt_less_iff)
  ultimately have "2 < 2 / sqrt ?V"
    by (simp add: less_divide_eq)
  then have exact: "2 < \<bar>4 - sum_list threshold_hours / 6\<bar>
       / sqrt (sum_list (map (\<lambda>x. (x - sum_list threshold_hours / 6)\<^sup>2) threshold_hours) / 5)"
    by (simp only: threshold_exact_mean) simp
  have "expected_anomalies left_to_right threshold_table = []"
    by (simp add: expected_anomalies_def threshold_departments threshold_unflagged metrics_def)
  then have "detect_anomalies left_to_right threshold_table = Inr []"
    by (simp add: detect_anomalies_expected)
  moreover have "map staff_hours threshold_table = threshold_hours"
    using threshold_staff_hours by (simp add: threshold_table_def threshold_hours_def day_row_def)
  ultimately show ?thesis
    using exact threshold_std by simp
qed

subsection \<open>The three-day table of tiny staff hours\<close>

lemma tiny_rows: "dept_rows tiny_table ''IT'' = tiny_table"
  by (simp add: dept_rows_def tiny_table_def day_row_def)

lemma tiny_staff_hours:
  "map (column StaffHours) tiny_table = [tiny_hours, tiny_hours, tiny_hours]"
  by (simp add: tiny_table_def day_row_def)

lemma tiny_budget: "map (column BudgetSpent) tiny_table = [100, 100, 100]"
  by (simp add: tiny_table_def day_row_def)

lemma tiny_utilization: "map (column ResourceUtilization) tiny_table = [75, 75, 75]"
  by (simp add: tiny_table_def day_row_def)

lemma tiny_mean:
  "np_mean left_to_right [tiny_hours, tiny_hours, tiny_hours] = Fin (7205759403792795 / 2 ^ 556)"
  by (simp add: np_mean_def tiny_hours_def left_to_right_def rnd)

lemma tiny_var: "np_var left_to_right [tiny_hours, tiny_hours, tiny_hours] = Fin 0"
  by (simp add: np_var_def tiny_hours_def left_to_right_def np_sub_def rnd)

lemma tiny_std: "np_std left_to_right [tiny_hours, tiny_hours, tiny_hours] = Fin 0"
  by (simp only: np_std_def tiny_var np_sqrt_zero)

lemma tiny_flag:
  "np_gt (np_abs (np_div (np_sub (Fin tiny_hours) (Fin (7205759403792795 / 2 ^ 556))) (Fin 0)))
     (Fin 2)"
  by (simp add: tiny_hours_def np_sub_def signed_inf_def rnd)

lemma mean_three_hundreds: "np_mean left_to_right [100, 100, 100] = Fin 100"
  by (simp add: np_mean_def left_to_right_def rnd)

lemma mean_three_75: "np_mean left_to_right [75, 75, 75] = Fin 75"
  by (simp add: np_mean_def left_to_right_def rnd)

lemma tiny_flagged_hours: "flagged_rows left_to_right tiny_table ''IT'' StaffHours = tiny_table"
proof -
  have "zflag left_to_right [tiny_hours, tiny_hours, tiny_hours] tiny_hours"
    unfolding zflag_def tiny_mean tiny_std by (rule tiny_flag)
  then show ?thesis
    unfolding flagged_rows_def tiny_rows tiny_staff_hours
    by (simp add: tiny_table_def day_row_def)
qed

lemma tiny_unflagged_budget: "flagged_rows left_to_right tiny_table ''IT'' BudgetSpent = []"
  by (rule unflagged_series)
     (simp add: tiny_rows tiny_budget const_not_flagged [OF mean_three_hundreds])

lemma tiny_unflagged_utilization:
  "flagged_rows left_to_right tiny_table ''IT'' ResourceUtilization = []"
  by (rule unflagged_series)
     (simp add: tiny_rows tiny_utilization const_not_flagged [OF mean_three_75])

lemma tiny_departments: "unique (map department tiny_table) = [''IT'']"
  by (simp add: tiny_table_def day_row_def)

text \<open>
  Claim C3 as stated fails. On the three-day table the staff hours are constant and
  their float64 standard deviation is zero (the squared differences underflow), but
  the computed mean differs from the value in the last place: every z-score is
  \<open>inf\<close> and all three days are flagged.
\<close>

theorem constant_series_counterexample:
  "map staff_hours tiny_table = [tiny_hours, tiny_hours, tiny_hours] \<and>
   np_std left_to_right (map staff_hours tiny_table) = Fin 0 \<and>
   detect_anomalies left_to_right tiny_table
   = Inr [\<lparr>anom_department = ''IT'', anom_date = 1, anom_metric = StaffHours,
            anom_value = tiny_hours\<rparr>,
          \<lparr>anom_department = ''IT'', anom_date = 2, anom_metric = StaffHours,
            anom_value = tiny_hours\<rparr>,
          \<lparr>anom_department = ''IT'', anom_date = 3, anom_metric = StaffHours,
            anom_value = tiny_hours\<rparr>]"
proof -
  have hours: "map staff_hours tiny_table = [tiny_hours, tiny_hours, tiny_hours]"
    by (simp add: tiny_table_def day_row_def)
  have "expected_anomalies left_to_right tiny_table
        = map (anomaly_of tiny_table ''IT'' StaffHours) tiny_table"
    by (simp add: expected_anomalies_def tiny_departments metrics_def tiny_rows
        tiny_flagged_hours tiny_unflagged_budget tiny_unflagged_utilization)
  also have "\<dots> = [\<lparr>anom_department = ''IT'', anom_date = 1, anom_metric = StaffHours,
            anom_value = tiny_hours\<rparr>,
          \<lparr>anom_department = ''IT'', anom_date = 2, anom_metric = StaffHours,
            anom_value = tiny_hours\<rparr>,
          \<lparr>anom_department = ''IT'', anom_date = 3, anom_metric = StaffHours,
            anom_value = tiny_hours\<rparr>]"
    by (simp add: anomaly_of_def tiny_table_def day_row_def)
  finally show ?thesis
    using tiny_std by (simp add: detect_anomalies_expected hours)
qed

subsection \<open>Values of the returned records\<close>

lemma flagged_rows_subset: "set (flagged_rows fsum df dept m) \<subseteq> set (dept_rows df dept)"
  by (auto simp: flagged_rows_def)

lemma expected_anomalies_origin:
  assumes "a \<in> set (expected_anomalies fsum df)"
  shows "\<exists>r r'. r \<in> set (dept_rows df (anom_department a)) \<and>
           find (\<lambda>x. date x = date r) (dept_rows df (anom_department a)) = Some r' \<and>
           anom_date a = date r \<and> anom_value a = column (anom_metric a) r'"
proof -
  from assms obtain dept m r where
    r: "r \<in> set (flagged_rows fsum df dept m)" and a: "a = anomaly_of (dept_rows df dept) dept m r"
    by (auto simp: expected_anomalies_def)
  from r have in_rows: "r \<in> set (dept_rows df dept)"
    using flagged_rows_subset [of fsum df dept m] by auto
  then obtain r' where f: "find (\<lambda>x. date x = date r) (dept_rows df dept) = Some r'"
    using find_in_rows by blast
  with a in_rows show ?thesis
    by (auto simp: anomaly_of_def)
qed

text \<open>
  Claim C10. In a table where each pair of department and date occurs once,
  \<open>detect_anomalies\<close> never fails in its lookup by date, and every record it returns
  carries the value that the table has for the record's department, date and metric.
\<close>

theorem anomaly_value_is_table_value:
  assumes "distinct (map (\<lambda>r. (department r, date r)) df)"
  shows "\<exists>found. detect_anomalies fsum df = Inr found \<and>
           (\<forall>a\<in>set found.
              (\<exists>r\<in>set df. department r = anom_department a \<and> date r = anom_date a) \<and>
              (\<forall>r\<in>set df. department r = anom_department a \<and> date r = anom_date a
                 \<longrightarrow> column (anom_metric a) r = anom_value a))"
proof -
  have inj: "inj_on (\<lambda>r. (department r, date r)) (set df)"
    using assms by (simp add: distinct_map)
  have "(\<exists>r\<in>set df. department r = anom_department a \<and> date r = anom_date a) \<and>
        (\<forall>r\<in>set df. department r = anom_department a \<and> date r = anom_date a
           \<longrightarrow> column (anom_metric a) r = anom_value a)"
    if "a \<in> set (expected_anomalies fsum df)" for a
  proof -
    from expected_anomalies_origin [OF that] obtain r r' where
      r: "r \<in> set (dept_rows df (anom_department a))" and
      f: "find (\<lambda>x. date x = date r) (dept_rows df (anom_department a)) = Some r'" and
      d: "anom_date a = date r" and v: "anom_value a = column (anom_metric a) r'"
      by blast
    from f have r': "r' \<in> set (dept_rows df (anom_department a))" "date r' = date r"
      by (auto simp: find_Some_iff in_set_conv_nth)
    then have key: "r' \<in> set df" "department r' = anom_department a" "date r' = anom_date a"
      using d by (auto simp: dept_rows_def)
    have uniq: "x = r'"
      if "x \<in> set df" "department x = anom_department a" "date x = anom_date a" for x
    proof -
      have "(department x, date x) = (department r', date r')"
        by (simp add: that(2,3) key(2,3))
      with inj show ?thesis
        using that(1) key(1) by (rule inj_onD)
    qed
    have "\<exists>r\<in>set df. department r = anom_department a \<and> date r = anom_date a"
      using key by (intro bexI [of _ r']) simp_all
    moreover have "\<forall>r\<in>set df. department r = anom_department a \<and> date r = anom_date a
           \<longrightarrow> column (anom_metric a) r = anom_value a"
    proof (intro ballI impI)
      fix x
      assume "x \<in> set df" and "department x = anom_department a \<and> date x = anom_date a"
      then have "x = r'" using uniq by simp
      then show "column (anom_metric a) x = anom_value a" by (simp add: v)
    qed
    ultimately show ?thesis ..
  qed
  then show ?thesis
    by (simp add: detect_anomalies_expected)
qed

text \<open>Claim C10 on the nine-day table.\<close>

theorem anomaly_value_is_table_value_witness:
  "distinct (map (\<lambda>r. (department r, date r)) outlier_table) \<and>
   (\<exists>found. detect_anomalies left_to_right outlier_table = Inr found \<and>
           (\<forall>a\<in>set found.
              (\<exists>r\<in>set outlier_table. department r = anom_department a \<and> date r = anom_date a) \<and>
              (\<forall>r\<in>set outlier_table. department r = anom_department a \<and> date r = anom_date a
                 \<longrightarrow> column (anom_metric a) r = anom_value a)))"
proof -
  have h: "distinct (map (\<lambda>r. (department r, date r)) outlier_table)"
    by (simp add: outlier_table_def day_row_def)
  from anomaly_value_is_table_value [OF h, of left_to_right] h show ?thesis by blast
qed

section \<open>Properties of the report\<close>

subsection \<open>The three ways the function ends\<close>

lemma generate_insights_report_service_error:
  assumes "service (summarize fsum df) = Inl e"
  shows "generate_insights_report fsum service today fs df = (fs, Inl e)"
  using assms by (simp add: generate_insights_report_def analyze_with_gpt_def)

lemma generate_insights_report_savings_error:
  assumes "service (summarize fsum df) = Inr ai" and "savings_percent ai = Inl e"
  shows "snd (generate_insights_report fsum service today fs df) = Inl e"
  using assms by (simp add: generate_insights_report_def analyze_with_gpt_def Let_def)

lemma generate_insights_report_success:
  assumes "service (summarize fsum df) = Inr ai" and "savings_percent ai = Inr percent"
  shows "generate_insights_report fsum service today fs df =
           (fs(''utilization_by_dept.html'' \<mapsto> util_by_dept df,
               ''budget_trend.html'' \<mapsto> budget_trend df),
            Inr \<lparr>metrics_summary = summarize fsum df,
                 ai_recommendations = ai,
                 anomalies = length (expected_anomalies fsum df),
                 potential_annual_savings = savings_estimate (summarize fsum df) percent,
                 analysis_date = today\<rparr>)"
  using assms
  by (simp add: generate_insights_report_def analyze_with_gpt_def Let_def
      detect_anomalies_expected savings_estimate_def)

lemma savings_percent_string:
  assumes "map_of kvs ''potential_savings'' = Some (JStr s)"
  shows "savings_percent (JObj kvs) = py_float (str_strip ''%'' s)"
  using assms by (simp add: savings_percent_def)

lemma py_float_error: "py_float s = Inl e \<Longrightarrow> e = ValueError"
  by (auto simp: py_float_def Let_def split: prod.splits option.splits)

subsection \<open>The two-day table and the service answers\<close>

lemma small_table_avg: "avg_utilization (summarize left_to_right small_table) = Fin 80"
  by (simp add: summarize_def small_table_def day_row_def np_mean_def left_to_right_def rnd)

lemma small_table_total: "total_budget (summarize left_to_right small_table) = Fin 1000000"
  by (simp add: summarize_def small_table_def day_row_def left_to_right_def rnd)

lemma savings_percent_full: "savings_percent full_reply = Inr (Fin 10)"
  by (simp add: full_reply_def savings_percent_def str_strip_def py_float_def is_space_def
      absfloatvalue_def lower_def number_def digitpart_def is_digit_def digit_val_def
      nat_of_digits_def exponent_def scale10_def rnd)

lemma savings_percent_partial: "savings_percent partial_reply = Inr (Fin 10)"
  by (simp add: partial_reply_def savings_percent_def str_strip_def py_float_def is_space_def
      absfloatvalue_def lower_def number_def digitpart_def is_digit_def digit_val_def
      nat_of_digits_def exponent_def scale10_def rnd)

lemma savings_percent_excessive: "savings_percent excessive_reply = Inr (Fin 150)"
  by (simp add: excessive_reply_def savings_percent_def str_strip_def py_float_def is_space_def
      absfloatvalue_def lower_def number_def digitpart_def is_digit_def digit_val_def
      nat_of_digits_def exponent_def scale10_def rnd)

subsection \<open>The savings estimate\<close>

lemma savings_percent_odd:
  "savings_percent odd_reply = Inr (Fin (6124895493223875 / 2 ^ 55))"
  by (simp add: odd_reply_def savings_percent_def str_strip_def py_float_def is_space_def
      absfloatvalue_def lower_def number_def digitpart_def is_digit_def digit_val_def
      nat_of_digits_def exponent_def scale10_def rnd)

text \<open>
  Claim C2, as amended. When the answer's \<open>potential_savings\<close> is a string that, with
  its percent signs stripped, \<open>float\<close> parses as \<open>p\<close>, the report's
  \<open>potential_annual_savings\<close> is the float64 value of
  \<open>((100 - avg_utilization) * total_budget * p) / 10000\<close>, computed from left to right
  with every operation rounded. The value does not depend on the clock or on the files
  present: the same table and answer give the same estimate.
\<close>

theorem savings_rounded:
  assumes "service (summarize fsum df) = Inr (JObj kvs)"
    and "map_of kvs ''potential_savings'' = Some (JStr s)"
    and "py_float (str_strip ''%'' s) = Inr p"
  shows "\<exists>rep. snd (generate_insights_report fsum service today fs df) = Inr rep \<and>
           potential_annual_savings rep
           = np_div (np_mul (np_mul (np_sub (Fin 100) (avg_utilization (summarize fsum df)))
                               (total_budget (summarize fsum df)))
                       p)
               (Fin 10000)"
proof -
  have "savings_percent (JObj kvs) = Inr p"
    using assms(2,3) by (simp add: savings_percent_string)
  from generate_insights_report_success [where fsum = fsum and service = service and df = df,
      OF assms(1) this]
  show ?thesis
    by (simp add: savings_estimate_def)
qed

text \<open>Claim C2 as amended, at average utilization \<open>80\<close>, total budget \<open>1000000\<close>
  and \<open>10%\<close>: the estimate is \<open>20000\<close>.\<close>

theorem savings_rounded_witness:
  "\<exists>rep. snd (generate_insights_report left_to_right (mocked_service (Inr full_reply))
                 ''2026-11-03'' Map.empty small_table) = Inr rep \<and>
         potential_annual_savings rep = Fin 20000"
proof -
  let ?kvs = "[(''identified_inefficiencies'', JArr [JStr ''idle capacity'']),
               (''optimization_suggestions'', JArr [JStr ''rebalance staff'']),
               (''potential_savings'', JStr ''10%''),
               (''priority_actions'', JArr [JStr ''a'', JStr ''b'', JStr ''c''])]"
  have 1: "mocked_service (Inr full_reply) (summarize left_to_right small_table)
           = Inr (JObj ?kvs)"
    by (simp add: mocked_service_def full_reply_def)
  have 2: "map_of ?kvs ''potential_savings'' = Some (JStr ''10%'')"
    by simp
  have 3: "py_float (str_strip ''%'' ''10%'') = Inr (Fin 10)"
    using savings_percent_full by (simp add: full_reply_def savings_percent_def)
  have 4: "np_div (np_mul (np_mul (np_sub (Fin 100) (Fin 80)) (Fin 1000000)) (Fin 10))
             (Fin 10000) = Fin 20000"
    by (simp add: np_sub_def rnd)
  from savings_rounded [where fsum = left_to_right
      and service = "mocked_service (Inr full_reply)" and df = small_table,
      OF 1 2 3, of "''2026-11-03''" Map.empty]
  show ?thesis
    by (simp only: small_table_avg small_table_total 4)
qed

text \<open>
  Claim C2 as stated fails: at average utilization \<open>80\<close>, total budget \<open>1000000\<close>
  and \<open>0.17%\<close> the code returns \<open>340.00000000000006\<close>, which is neither the value
  \<open>340\<close> of the stated formula nor what float64 gives for the formula in the order
  it is stated, \<open>340.0\<close>.
\<close>

theorem savings_formula_counterexample:
  "avg_utilization (summarize left_to_right small_table) = Fin 80 \<and>
   total_budget (summarize left_to_right small_table) = Fin 1000000 \<and>
   savings_percent odd_reply = Inr (Fin (6124895493223875 / 2 ^ 55)) \<and>
   map_sum id potential_annual_savings
     (snd (generate_insights_report left_to_right (mocked_service (Inr odd_reply))
             ''2026-11-03'' Map.empty small_table))
   = Inr (Fin (5981343255101441 / 2 ^ 44)) \<and>
   (5981343255101441 / 2 ^ 44 :: real) \<noteq> (100 - 80) * 1000000 * (17 / 100 / 100) / 100 \<and>
   np_div (np_mul (np_mul (np_sub (Fin 100) (Fin 80)) (Fin 1000000))
             (np_div (Fin (6124895493223875 / 2 ^ 55)) (Fin 100)))
     (Fin 100) = Fin 340"
proof -
  have s: "mocked_service (Inr odd_reply) (summarize left_to_right small_table) = Inr odd_reply"
    by (simp add: mocked_service_def)
  have code: "savings_estimate (summarize left_to_right small_table)
                (Fin (6124895493223875 / 2 ^ 55)) = Fin (5981343255101441 / 2 ^ 44)"
    by (simp add: savings_estimate_def small_table_avg small_table_total np_sub_def rnd)
  have stated: "np_div (np_mul (np_mul (np_sub (Fin 100) (Fin 80)) (Fin 1000000))
             (np_div (Fin (6124895493223875 / 2 ^ 55)) (Fin 100)))
     (Fin 100) = Fin 340"
    by (simp add: np_sub_def rnd)
  have exact: "(5981343255101441 / 2 ^ 44 :: real) \<noteq> (100 - 80) * 1000000 * (17 / 100 / 100) / 100"
    by simp
  have run: "map_sum id potential_annual_savings
     (snd (generate_insights_report left_to_right (mocked_service (Inr odd_reply))
             ''2026-11-03'' Map.empty small_table))
   = Inr (Fin (5981343255101441 / 2 ^ 44))"
    by (simp only: generate_insights_report_success
        [where fsum = left_to_right and service = "mocked_service (Inr odd_reply)"
          and df = small_table, OF s savings_percent_odd] code)
       simp
  show ?thesis
    by (intro conjI small_table_avg small_table_total savings_percent_odd run exact stated)
qed

subsection \<open>Repeated construction\<close>

text \<open>
  Claim C8. Two constructions of the report from the same table and the same service,
  at different clock readings and with different files present, agree on
  \<open>metrics_summary\<close> and on the anomaly count.
\<close>

theorem summary_and_count_repeatable:
  assumes "snd (generate_insights_report fsum service today1 fs1 df) = Inr rep1"
    and "snd (generate_insights_report fsum service today2 fs2 df) = Inr rep2"
  shows "metrics_summary rep1 = metrics_summary rep2 \<and> anomalies rep1 = anomalies rep2"
proof (cases "service (summarize fsum df)")
  case (Inl e)
  then show ?thesis
    using assms(1) by (simp add: generate_insights_report_service_error)
next
  case (Inr ai)
  show ?thesis
  proof (cases "savings_percent ai")
    case (Inl e)
    then show ?thesis
      using assms(1) Inr
      by (simp add: generate_insights_report_savings_error [where fsum = fsum and service = service and df = df])
  next
    case percent: (Inr percent)
    from generate_insights_report_success [where fsum = fsum and service = service and df = df, OF Inr percent]
    show ?thesis
      using assms by auto
  qed
qed

text \<open>Claim C8 on the two-day table, for two days and two states of the
  directory.\<close>

theorem summary_and_count_repeatable_witness:
  "\<exists>rep1 rep2.
     snd (generate_insights_report left_to_right (mocked_service (Inr full_reply)) ''2026-11-03''
            Map.empty small_table) = Inr rep1 \<and>
     snd (generate_insights_report left_to_right (mocked_service (Inr full_reply)) ''2026-11-04''
            [''notes.txt'' \<mapsto> budget_trend []] small_table) = Inr rep2 \<and>
     metrics_summary rep1 = metrics_summary rep2 \<and> anomalies rep1 = anomalies rep2"
proof -
  have s: "mocked_service (Inr full_reply) (summarize left_to_right small_table) = Inr full_reply"
    by (simp add: mocked_service_def)
  note ok = generate_insights_report_success
    [where fsum = left_to_right and service = "mocked_service (Inr full_reply)" and df = small_table,
      OF s savings_percent_full]
  obtain rep1 where 1: "snd (generate_insights_report left_to_right (mocked_service (Inr full_reply))
      ''2026-11-03'' Map.empty small_table) = Inr rep1"
    by (simp add: ok)
  obtain rep2 where 2: "snd (generate_insights_report left_to_right (mocked_service (Inr full_reply))
      ''2026-11-04'' [''notes.txt'' \<mapsto> budget_trend []] small_table) = Inr rep2"
    by (simp add: ok)
  from summary_and_count_repeatable [OF 1 2] 1 2 show ?thesis by blast
qed

subsection \<open>Files written\<close>

text \<open>
  Claim C9, as amended. Report construction writes files: once the service has
  answered, the two charts \<open>utilization_by_dept.html\<close> and \<open>budget_trend.html\<close> are
  written, whatever happens afterwards, and no other file changes; when the service
  call raises, no file changes.
\<close>

theorem report_writes_charts:
  "fst (generate_insights_report fsum service today fs df) =
     (case service (summarize fsum df) of
        Inl e \<Rightarrow> fs
      | Inr ai \<Rightarrow> fs(''utilization_by_dept.html'' \<mapsto> util_by_dept df,
                     ''budget_trend.html'' \<mapsto> budget_trend df))"
  by (simp add: generate_insights_report_def analyze_with_gpt_def Let_def
      detect_anomalies_expected split: sum.splits)

text \<open>Claim C9 as stated fails: in an empty directory, building the report of the
  two-day table leaves two files.\<close>

theorem report_writes_charts_counterexample:
  "dom (fst (generate_insights_report left_to_right (mocked_service (Inr full_reply)) ''2026-11-03''
               Map.empty small_table))
   = {''utilization_by_dept.html'', ''budget_trend.html''}"
proof -
  have s: "mocked_service (Inr full_reply) (summarize left_to_right small_table) = Inr full_reply"
    by (simp add: mocked_service_def)
  show ?thesis
    by (simp add: generate_insights_report_success
        [where fsum = left_to_right and service = "mocked_service (Inr full_reply)" and df = small_table,
          OF s savings_percent_full] insert_commute)
qed

subsection \<open>What is checked of the service answer\<close>

text \<open>
  Claim C5, as amended. The service answer is not validated against a schema: a decoded
  object without \<open>priority_actions\<close> is returned by \<open>analyze_with_gpt\<close> as it is,
  and, when its \<open>potential_savings\<close> parses, it becomes the \<open>ai_recommendations\<close>
  of the report.
\<close>

theorem partial_answer_passes:
  assumes "service (summarize fsum df) = Inr (JObj kvs)"
    and "map_of kvs ''priority_actions'' = None"
    and "savings_percent (JObj kvs) = Inr percent"
  shows "analyze_with_gpt service (summarize fsum df) = Inr (JObj kvs) \<and>
         (\<exists>rep. snd (generate_insights_report fsum service today fs df) = Inr rep \<and>
                ai_recommendations rep = JObj kvs)"
  using generate_insights_report_success [where fsum = fsum and service = service and df = df,
      OF assms(1) assms(3)] assms(1)
  by (simp add: analyze_with_gpt_def)

text \<open>Claim C5 as amended, on the answer without \<open>priority_actions\<close>.\<close>

theorem partial_answer_passes_witness:
  "analyze_with_gpt (mocked_service (Inr partial_reply)) (summarize left_to_right small_table)
     = Inr partial_reply \<and>
   (\<exists>rep. snd (generate_insights_report left_to_right (mocked_service (Inr partial_reply)) ''2026-11-03''
                  Map.empty small_table) = Inr rep \<and>
          ai_recommendations rep = partial_reply)"
proof -
  let ?kvs = "[(''identified_inefficiencies'', JArr [JStr ''idle capacity'']),
               (''optimization_suggestions'', JArr [JStr ''rebalance staff'']),
               (''potential_savings'', JStr ''10%'')]"
  have 1: "mocked_service (Inr partial_reply) (summarize left_to_right small_table) = Inr (JObj ?kvs)"
    by (simp add: mocked_service_def partial_reply_def)
  have 2: "map_of ?kvs ''priority_actions'' = None"
    by simp
  have 3: "savings_percent (JObj ?kvs) = Inr (Fin 10)"
    using savings_percent_partial by (simp add: partial_reply_def)
  from partial_answer_passes [where fsum = left_to_right and service = "mocked_service (Inr partial_reply)" and df = small_table, OF 1 2 3, of "''2026-11-03''" Map.empty]
  show ?thesis
    by (simp add: partial_reply_def)
qed

text \<open>Claim C5 as stated fails: the answer without \<open>priority_actions\<close> raises
  nothing and reaches the report.\<close>

theorem schema_error_counterexample:
  "py_getitem partial_reply ''priority_actions'' = Inl KeyError \<and>
   analyze_with_gpt (mocked_service (Inr partial_reply)) (summarize left_to_right small_table)
     = Inr partial_reply \<and>
   map_sum id ai_recommendations
     (snd (generate_insights_report left_to_right (mocked_service (Inr partial_reply)) ''2026-11-03''
             Map.empty small_table)) = Inr partial_reply"
proof -
  have s: "mocked_service (Inr partial_reply) (summarize left_to_right small_table) = Inr partial_reply"
    by (simp add: mocked_service_def)
  have "py_getitem partial_reply ''priority_actions'' = Inl KeyError"
    by (simp add: partial_reply_def)
  then show ?thesis
    by (simp add: analyze_with_gpt_def s generate_insights_report_success
        [where fsum = left_to_right and service = "mocked_service (Inr partial_reply)" and df = small_table,
          OF s savings_percent_partial])
qed

text \<open>
  Claim C6, as amended. The \<open>potential_savings\<close> string is stripped of percent signs
  and parsed with \<open>float\<close>: text that does not parse raises ValueError; every parsed
  value, in or out of the range from 0 to 100, enters the savings estimate, and the
  answer is passed on in the report. There is no range check.
\<close>

theorem savings_not_range_checked:
  assumes "service (summarize fsum df) = Inr (JObj kvs)"
    and "map_of kvs ''potential_savings'' = Some (JStr s)"
  shows "(py_float (str_strip ''%'' s) = Inl ValueError \<and>
          snd (generate_insights_report fsum service today fs df) = Inl ValueError) \<or>
         (\<exists>percent rep.
            py_float (str_strip ''%'' s) = Inr percent \<and>
            snd (generate_insights_report fsum service today fs df) = Inr rep \<and>
            ai_recommendations rep = JObj kvs \<and>
            potential_annual_savings rep = savings_estimate (summarize fsum df) percent)"
proof (cases "py_float (str_strip ''%'' s)")
  case (Inl e)
  then have e: "e = ValueError"
    by (rule py_float_error)
  from Inl have "savings_percent (JObj kvs) = Inl e"
    using assms(2) by (simp add: savings_percent_string)
  from generate_insights_report_savings_error [where fsum = fsum and service = service and df = df,
      OF assms(1) this]
  show ?thesis
    using Inl e by simp
next
  case (Inr percent)
  then have "savings_percent (JObj kvs) = Inr percent"
    using assms(2) by (simp add: savings_percent_string)
  from generate_insights_report_success [where fsum = fsum and service = service and df = df,
      OF assms(1) this]
  show ?thesis
    using Inr by simp
qed

text \<open>Claim C6 as amended, on the answer with \<open>150%\<close>.\<close>

theorem savings_not_range_checked_witness:
  "\<exists>rep. py_float (str_strip ''%'' ''150%'') = Inr (Fin 150) \<and>
         snd (generate_insights_report left_to_right (mocked_service (Inr excessive_reply)) ''2026-11-03''
                Map.empty small_table) = Inr rep \<and>
         ai_recommendations rep = excessive_reply \<and>
         potential_annual_savings rep = Fin 300000"
proof -
  let ?kvs = "[(''identified_inefficiencies'', JArr [JStr ''idle capacity'']),
               (''optimization_suggestions'', JArr [JStr ''rebalance staff'']),
               (''potential_savings'', JStr ''150%''),
               (''priority_actions'', JArr [JStr ''a'', JStr ''b'', JStr ''c''])]"
  have 1: "mocked_service (Inr excessive_reply) (summarize left_to_right small_table) = Inr (JObj ?kvs)"
    by (simp add: mocked_service_def excessive_reply_def)
  have 2: "map_of ?kvs ''potential_savings'' = Some (JStr ''150%'')"
    by simp
  have 3: "py_float (str_strip ''%'' ''150%'') = Inr (Fin 150)"
    by (simp add: str_strip_def py_float_def is_space_def
      absfloatvalue_def lower_def number_def digitpart_def is_digit_def digit_val_def
      nat_of_digits_def exponent_def scale10_def rnd)
  have 4: "savings_estimate (summarize left_to_right small_table) (Fin 150) = Fin 300000"
    by (simp add: savings_estimate_def small_table_avg small_table_total np_sub_def rnd)
  from savings_not_range_checked [where fsum = left_to_right and service = "mocked_service (Inr excessive_reply)" and df = small_table, OF 1 2, of "''2026-11-03''" Map.empty]
  show ?thesis
    by (simp add: 3 4 excessive_reply_def)
qed

text \<open>Claim C6 as stated fails: \<open>150%\<close> is accepted and gives an estimate of
  \<open>300000\<close> on the two-day table.\<close>

theorem range_check_counterexample:
  "savings_percent excessive_reply = Inr (Fin 150) \<and>
   map_sum id potential_annual_savings
     (snd (generate_insights_report left_to_right (mocked_service (Inr excessive_reply)) ''2026-11-03''
             Map.empty small_table)) = Inr (Fin 300000)"
proof -
  have s: "mocked_service (Inr excessive_reply) (summarize left_to_right small_table) = Inr excessive_reply"
    by (simp add: mocked_service_def)
  have "savings_estimate (summarize left_to_right small_table) (Fin 150) = Fin 300000"
    by (simp add: savings_estimate_def small_table_avg small_table_total np_sub_def rnd)
  then show ?thesis
    by (simp add: savings_percent_excessive generate_insights_report_success
        [where fsum = left_to_right and service = "mocked_service (Inr excessive_reply)" and df = small_table,
          OF s savings_percent_excessive])
qed

section \<open>Properties of forecasting\<close>

lemma for_each_fails:
  assumes "x \<in> set xs" and "\<And>s. \<exists>e. body x s = Inl e"
  shows "\<exists>e. for_each body xs s = Inl e"
  using assms(1)
proof (induction xs arbitrary: s)
  case Nil
  then show ?case by simp
next
  case (Cons a xs)
  show ?case
  proof (cases "body a s")
    case (Inl e)
    then show ?thesis by simp
  next
    case (Inr s')
    with assms(2) [of s] have "a \<noteq> x" by auto
    with Cons.prems have "x \<in> set xs" by simp
    from Cons.IH [OF this, of s'] Inr show ?thesis by simp
  qed
qed

lemma for_each_fitted:
  assumes "\<forall>d\<in>set depts. \<exists>f. g d = Inr f"
  shows "\<exists>m'. for_each (\<lambda>dept forecasts.
                  case g dept of
                    Inl e \<Rightarrow> Inl e
                  | Inr forecast \<Rightarrow> Inr (forecasts(dept \<mapsto> forecast))) depts m = Inr m' \<and>
              dom m' = dom m \<union> set depts \<and>
              (\<forall>d f. m' d = Some f \<longrightarrow> m d = Some f \<or> g d = Inr f)"
  using assms
proof (induction depts arbitrary: m)
  case Nil
  then show ?case by simp
next
  case (Cons d depts)
  then obtain f where f: "g d = Inr f" by auto
  from Cons.prems have "\<forall>d\<in>set depts. \<exists>f. g d = Inr f" by simp
  from Cons.IH [OF this, of "m(d \<mapsto> f)"] obtain m' where
    m': "for_each (\<lambda>dept forecasts.
                  case g dept of
                    Inl e \<Rightarrow> Inl e
                  | Inr forecast \<Rightarrow> Inr (forecasts(dept \<mapsto> forecast))) depts (m(d \<mapsto> f)) = Inr m'"
      "dom m' = dom (m(d \<mapsto> f)) \<union> set depts"
      "\<forall>d' f'. m' d' = Some f' \<longrightarrow> (m(d \<mapsto> f)) d' = Some f' \<or> g d' = Inr f'"
    by blast
  from m'(3) have "\<forall>d' f'. m' d' = Some f' \<longrightarrow> m d' = Some f' \<or> g d' = Inr f'"
    using f by (auto split: if_splits)
  with m'(1,2) f show ?case by auto
qed

text \<open>When every department is fitted, the map has one series per department.\<close>

lemma forecast_resources_all_fitted:
  assumes "\<forall>d\<in>set (map department df). \<exists>f. fit_predict (df_prophet df d) 90 = Inr f"
  shows "\<exists>forecasts. forecast_resources fit_predict df = Inr forecasts \<and>
           dom forecasts = set (map department df) \<and>
           (\<forall>d f. forecasts d = Some f \<longrightarrow> fit_predict (df_prophet df d) 90 = Inr f)"
proof -
  have "\<forall>d\<in>set (unique (map department df)). \<exists>f. fit_predict (df_prophet df d) 90 = Inr f"
    using assms by simp
  from for_each_fitted [where g = "\<lambda>d. fit_predict (df_prophet df d) 90", OF this, of Map.empty]
  show ?thesis
    unfolding forecast_resources_def by simp
qed

text \<open>
  Claim C7, as amended. When fitting fails for a department of the table,
  \<open>forecast_resources\<close> raises: no forecast map is returned, not even for the
  departments fitted before.
\<close>

theorem failed_fit_aborts:
  assumes "dept \<in> set (map department df)"
    and "fit_predict (df_prophet df dept) 90 = Inl e"
  shows "\<exists>e'. forecast_resources fit_predict df = Inl e'"
  unfolding forecast_resources_def
proof (rule for_each_fails [where x = dept])
  show "dept \<in> set (unique (map department df))"
    using assms(1) by simp
next
  fix s :: "string \<rightharpoonup> forecast_point list"
  show "\<exists>e. (case fit_predict (df_prophet df dept) 90 of
               Inl e \<Rightarrow> Inl e
             | Inr forecast \<Rightarrow> Inr (s(dept \<mapsto> forecast))) = Inl e"
    by (simp add: assms(2))
qed

lemma two_dept_it: "df_prophet two_dept_table ''IT'' = [(1, 75)]"
  by (simp add: df_prophet_def dept_rows_def two_dept_table_def day_row_def)

lemma two_dept_sales: "df_prophet two_dept_table ''Sales'' = [(1, 70), (2, 90)]"
  by (simp add: df_prophet_def dept_rows_def two_dept_table_def day_row_def)

text \<open>Claim C7 as amended, on the table whose second department has a single
  row.\<close>

theorem failed_fit_aborts_witness:
  "''IT'' \<in> set (map department two_dept_table) \<and>
   refusing_prophet (df_prophet two_dept_table ''IT'') 90 = Inl ValueError \<and>
   (\<exists>e'. forecast_resources refusing_prophet two_dept_table = Inl e')"
proof -
  have 1: "''IT'' \<in> set (map department two_dept_table)"
    by (simp add: two_dept_table_def day_row_def)
  have 2: "refusing_prophet (df_prophet two_dept_table ''IT'') 90 = Inl ValueError"
    by (simp add: two_dept_it refusing_prophet_def)
  from failed_fit_aborts [where fit_predict = refusing_prophet, OF 1 2] 1 2
  show ?thesis by simp
qed

text \<open>Claim C7 as stated fails: Sales is fitted, IT is refused, and the call raises
  ValueError instead of returning the forecast of Sales.\<close>

theorem other_departments_counterexample:
  "refusing_prophet (df_prophet two_dept_table ''Sales'') 90 = Inr [] \<and>
   refusing_prophet (df_prophet two_dept_table ''IT'') 90 = Inl ValueError \<and>
   forecast_resources refusing_prophet two_dept_table = Inl ValueError"
proof -
  have "unique (map department two_dept_table) = [''Sales'', ''IT'']"
    by (simp add: two_dept_table_def day_row_def)
  then show ?thesis
    by (simp add: forecast_resources_def two_dept_it two_dept_sales refusing_prophet_def)
qed

end
